theory Spec2Isabelle
  imports Complex_Main "HOL-Library.List_Lexorder" "HOL-Library.Char_ord"
begin

section \<open>Real-time stock dashboard: configuration, storage, requests, cards\<close>

text \<open>
  A shallow embedding of the JavaScript of the dashboard: \<open>js/config.js\<close> (the
  configuration object, its environment overrides and its validation), the class
  \<open>Utils\<close> (market status, \<open>makeRequest\<close>, the localStorage helpers), the class
  \<open>StockCard\<close> (loading, alerts, auto refresh) and \<open>StockDashboard.updateStats\<close>.

  Conventions. JavaScript numbers that hold prices are \<open>real\<close>; settings and
  millisecond timestamps (\<open>Date.now()\<close>) are \<open>int\<close>; counters are \<open>nat\<close>. A value
  that may be \<open>null\<close> or \<open>undefined\<close> is an \<open>option\<close>. The operator \<open>a || b\<close> on
  numbers takes \<open>b\<close> when \<open>a\<close> is missing or zero. An exception is a value: a function
  that throws returns \<open>Inl\<close> of the message. Mutation of an object is explicit state
  passing. DOM updates, sounds and console output are left out.
\<close>

subsection \<open>js/config.js\<close>

text \<open>The groups of \<open>CONFIG\<close> that the modelled code reads, with the source's names.\<close>

record APP_config =
  ENVIRONMENT :: string

record API_config =
  TIMEOUT :: int
  RETRY_ATTEMPTS :: int
  RETRY_DELAY :: int
  MAX_REQUESTS_PER_MINUTE :: int

record POLLING_config =
  DEFAULT_INTERVAL :: int
  MIN_INTERVAL :: int
  MAX_INTERVAL :: int
  MAX_RETRIES :: int
  BACKOFF_MULTIPLIER :: int
  AUTO_PAUSE_ON_ERROR :: bool
  AUTO_RESUME_DELAY :: int

record FORMAT_config =
  CURRENCY_DECIMALS :: int

record CACHE_config =
  CACHE_ENABLED :: bool
  STOCK_DATA_DURATION :: int
  MAX_ENTRIES :: int
  MAX_SIZE :: int

record HOURS_config =
  OPEN :: string
  CLOSE :: string

record EXTENDED_HOURS_config =
  PRE_MARKET_START :: string
  PRE_MARKET_END :: string
  AFTER_HOURS_START :: string
  AFTER_HOURS_END :: string

record MARKET_config =
  HOURS :: HOURS_config
  TRADING_DAYS :: "nat list"
  HOLIDAYS :: "string list"
  EXTENDED_HOURS :: EXTENDED_HOURS_config

record DEBUG_config =
  DEBUG_ENABLED :: bool
  CONSOLE_LOGGING :: bool

record config =
  APP :: APP_config
  API :: API_config
  POLLING :: POLLING_config
  FORMAT :: FORMAT_config
  CACHE :: CACHE_config
  MARKET :: MARKET_config
  DEBUG :: DEBUG_config

definition CONFIG :: config where
  "CONFIG =
     \<lparr> APP = \<lparr> ENVIRONMENT = ''production'' \<rparr>,
       API = \<lparr> TIMEOUT = 30000, RETRY_ATTEMPTS = 3, RETRY_DELAY = 2000,
               MAX_REQUESTS_PER_MINUTE = 60 \<rparr>,
       POLLING = \<lparr> DEFAULT_INTERVAL = 30000, MIN_INTERVAL = 5000, MAX_INTERVAL = 3600000,
                   MAX_RETRIES = 3, BACKOFF_MULTIPLIER = 2, AUTO_PAUSE_ON_ERROR = True,
                   AUTO_RESUME_DELAY = 30000 \<rparr>,
       FORMAT = \<lparr> CURRENCY_DECIMALS = 2 \<rparr>,
       CACHE = \<lparr> CACHE_ENABLED = True, STOCK_DATA_DURATION = 30000, MAX_ENTRIES = 100,
                 MAX_SIZE = 5242880 \<rparr>,
       MARKET = \<lparr> HOURS = \<lparr> OPEN = ''09:30'', CLOSE = ''16:00'' \<rparr>,
                  TRADING_DAYS = [1, 2, 3, 4, 5],
                  HOLIDAYS = [''2025-01-01'', ''2025-01-20'', ''2025-02-17'', ''2025-04-18'',
                              ''2025-05-26'', ''2025-07-04'', ''2025-09-01'', ''2025-11-27'',
                              ''2025-12-25''],
                  EXTENDED_HOURS = \<lparr> PRE_MARKET_START = ''04:00'', PRE_MARKET_END = ''09:30'',
                                     AFTER_HOURS_START = ''16:00'', AFTER_HOURS_END = ''20:00'' \<rparr> \<rparr>,
       DEBUG = \<lparr> DEBUG_ENABLED = False, CONSOLE_LOGGING = True \<rparr> \<rparr>"

text \<open>
  \<open>applyEnvironmentConfig\<close>: \<open>mergeDeep(CONFIG, ENVIRONMENT_OVERRIDES[environment])\<close>,
  written out on the modelled fields. A leaf of the override replaces the leaf of the
  target (also a \<open>false\<close> leaf: it takes the \<open>else\<close> branch of \<open>mergeDeep\<close>); every
  other field is kept. An environment with no entry in the table changes nothing.
\<close>

definition applyEnvironmentConfig :: "config \<Rightarrow> config" where
  "applyEnvironmentConfig c =
     (let environment = ENVIRONMENT (APP c) in
      if environment = ''development'' then
        c \<lparr> DEBUG := (DEBUG c) \<lparr> DEBUG_ENABLED := True, CONSOLE_LOGGING := True \<rparr>,
            POLLING := (POLLING c) \<lparr> DEFAULT_INTERVAL := 10000 \<rparr>,
            CACHE := (CACHE c) \<lparr> CACHE_ENABLED := False \<rparr> \<rparr>
      else if environment = ''staging'' then
        c \<lparr> DEBUG := (DEBUG c) \<lparr> DEBUG_ENABLED := True, CONSOLE_LOGGING := True \<rparr> \<rparr>
      else if environment = ''production'' then
        c \<lparr> DEBUG := (DEBUG c) \<lparr> DEBUG_ENABLED := False, CONSOLE_LOGGING := False \<rparr> \<rparr>
      else c)"

text \<open>\<open>errors.join(', ')\<close>.\<close>

fun join :: "string list \<Rightarrow> string" where
  "join [] = []"
| "join [e] = e"
| "join (e # es) = e @ '', '' @ join es"

text \<open>The list \<open>errors\<close> that \<open>validateConfig\<close> collects, in the order of its checks.\<close>

definition validateConfig_errors :: "config \<Rightarrow> string list" where
  "validateConfig_errors c =
     (if MIN_INTERVAL (POLLING c) \<ge> MAX_INTERVAL (POLLING c)
      then [''POLLING.MIN_INTERVAL must be less than POLLING.MAX_INTERVAL''] else []) @
     (if DEFAULT_INTERVAL (POLLING c) < MIN_INTERVAL (POLLING c) \<or>
         DEFAULT_INTERVAL (POLLING c) > MAX_INTERVAL (POLLING c)
      then [''POLLING.DEFAULT_INTERVAL must be between MIN_INTERVAL and MAX_INTERVAL''] else []) @
     (if MAX_SIZE (CACHE c) \<le> 0
      then [''CACHE.MAX_SIZE must be greater than 0''] else []) @
     (if CURRENCY_DECIMALS (FORMAT c) < 0 \<or> CURRENCY_DECIMALS (FORMAT c) > 10
      then [''FORMAT.CURRENCY_DECIMALS must be between 0 and 10''] else [])"

text \<open>\<open>validateConfig\<close> throws when the list is not empty: \<open>Inl\<close> of the message.\<close>

definition validateConfig :: "config \<Rightarrow> string + unit" where
  "validateConfig c =
     (let errors = validateConfig_errors c in
      if length errors > 0
      then Inl (''Configuration validation failed: '' @ join errors)
      else Inr ())"

text \<open>
  \<open>initializeConfig\<close> mutates the global \<open>CONFIG\<close> and returns a boolean: the model
  returns the configuration after the merge together with that boolean. The
  \<open>try\<close>/\<open>catch\<close> turns the exception of \<open>validateConfig\<close> into \<open>false\<close>; the merge has
  been applied by then.
\<close>

definition initializeConfig :: "config \<Rightarrow> config \<times> bool" where
  "initializeConfig c =
     (let c' = applyEnvironmentConfig c in
      case validateConfig c' of
        Inl error \<Rightarrow> (c', False)
      | Inr _ \<Rightarrow> (c', True))"

text \<open>The four constraints, as the claim lists them.\<close>

definition constraints_hold :: "config \<Rightarrow> bool" where
  "constraints_hold c \<longleftrightarrow>
     MIN_INTERVAL (POLLING c) < MAX_INTERVAL (POLLING c) \<and>
     MIN_INTERVAL (POLLING c) \<le> DEFAULT_INTERVAL (POLLING c) \<and>
     DEFAULT_INTERVAL (POLLING c) \<le> MAX_INTERVAL (POLLING c) \<and>
     MAX_SIZE (CACHE c) > 0 \<and>
     0 \<le> CURRENCY_DECIMALS (FORMAT c) \<and> CURRENCY_DECIMALS (FORMAT c) \<le> 10"

subsection \<open>Quotes\<close>

text \<open>
  The quote object that the server returns and a card keeps in \<open>this.data\<close>: the fields
  that the modelled code reads. A field that is absent is \<open>None\<close>.
\<close>

record quote =
  regularMarketPrice :: "real option"
  price :: "real option"
  regularMarketPreviousClose :: "real option"
  regularMarketTime :: "int option"

text \<open>
  Truthiness of an optional number, as in \<open>a && b\<close>, \<open>a || b\<close> and \<open>if (a)\<close>: absent
  and zero are falsy.
\<close>

fun truthy :: "'a::zero option \<Rightarrow> bool" where
  "truthy None = False"
| "truthy (Some x) = (x \<noteq> 0)"

text \<open>\<open>a || b\<close> with a number \<open>b\<close> as the fall-back.\<close>

fun or_else :: "'a::zero option \<Rightarrow> 'a \<Rightarrow> 'a" where
  "or_else None b = b"
| "or_else (Some x) b = (if x \<noteq> 0 then x else b)"

text \<open>
  Modelled from the spec: the \<open>asOf\<close> of a snapshot, which the code does not name. The
  quote's own time, \<open>regularMarketTime\<close>, stands for it (0 when absent).
\<close>

definition asOf :: "quote \<Rightarrow> int" where
  "asOf q = or_else (regularMarketTime q) 0"

subsection \<open>Utils: localStorage helpers\<close>

text \<open>
  The object that \<open>setLocalStorage\<close> stringifies. \<open>expiry\<close> is \<open>null\<close> for an entry
  that does not expire.
\<close>

record 'v item =
  item_value :: 'v
  timestamp :: int
  expiry :: "int option"

text \<open>
  What \<open>localStorage\<close> holds under a key: the empty string, a string that
  \<open>JSON.parse\<close> rejects, or the JSON text of an item. \<open>getItem\<close> of an absent key is
  \<open>null\<close>: \<open>None\<close> in the map.
\<close>

datatype 'v stored = Empty_string | Unparsable | Json "'v item"

type_synonym 'v localStorage = "string \<rightharpoonup> 'v stored"

text \<open>
  \<open>setLocalStorage(key, value, expiry)\<close> at the instant \<open>now\<close> (both calls of
  \<open>Date.now()\<close> read the same \<open>now\<close>). \<open>setItem\<close> may throw (the quota is exceeded):
  \<open>quota_exceeded\<close> says so, and the \<open>catch\<close> then returns \<open>false\<close> with the storage as
  it was. There is no read of the stored entry before the write.
\<close>

definition setLocalStorage ::
  "bool \<Rightarrow> int \<Rightarrow> 'v localStorage \<Rightarrow> string \<Rightarrow> 'v \<Rightarrow> int option \<Rightarrow> 'v localStorage \<times> bool" where
  "setLocalStorage quota_exceeded now storage key v expiry_ms =
     (let it = \<lparr> item_value = v, timestamp = now,
                  expiry = (if truthy expiry_ms then Some (now + the expiry_ms) else None) \<rparr>
      in if quota_exceeded then (storage, False)
         else (storage (key \<mapsto> Json it), True))"

text \<open>
  \<open>getLocalStorage(key, defaultValue)\<close> at the instant \<open>now\<close>: the storage after the
  call and the value returned. An expired entry is removed; a string that does not parse
  is caught and left where it is.
\<close>

definition getLocalStorage ::
  "int \<Rightarrow> 'v localStorage \<Rightarrow> string \<Rightarrow> 'v \<Rightarrow> 'v localStorage \<times> 'v" where
  "getLocalStorage now storage key defaultValue =
     (case storage key of
        None \<Rightarrow> (storage, defaultValue)
      | Some Empty_string \<Rightarrow> (storage, defaultValue)
      | Some Unparsable \<Rightarrow> (storage, defaultValue)
      | Some (Json it) \<Rightarrow>
          if truthy (expiry it) \<and> now > the (expiry it)
          then (storage (key := None), defaultValue)
          else (storage, item_value it))"

text \<open>
  A sequence of writes under one key, each accepted by \<open>localStorage\<close>: the instant, the
  value and the expiry argument of each call of \<open>setLocalStorage\<close>, in order.
\<close>

fun write_all :: "'v localStorage \<Rightarrow> string \<Rightarrow> (int \<times> 'v \<times> int option) list \<Rightarrow> 'v localStorage" where
  "write_all storage key [] = storage"
| "write_all storage key ((now, v, expiry_ms) # ws) =
     write_all (fst (setLocalStorage False now storage key v expiry_ms)) key ws"

text \<open>The value stored under a key, when an item is stored there.\<close>

definition stored_value :: "'v localStorage \<Rightarrow> string \<Rightarrow> 'v option" where
  "stored_value storage key =
     (case storage key of Some (Json it) \<Rightarrow> Some (item_value it) | _ \<Rightarrow> None)"

subsection \<open>StockCard: price alerts\<close>

text \<open>
  The object that \<open>setAlert\<close> stores for a symbol under the key \<open>stockAlerts\<close>:
  \<open>{ price, created, triggered }\<close>. \<open>created\<close> is \<open>Date.now()\<close>, a timestamp in
  milliseconds. The object has no direction and no price of creation.
\<close>

record alert =
  alert_price :: real
  created :: int
  triggered :: bool

type_synonym alerts = "string \<rightharpoonup> alert"

text \<open>\<open>setAlert(price)\<close> of the card of \<open>symbol\<close>, at the instant \<open>now\<close>.\<close>

definition setAlert :: "int \<Rightarrow> alerts \<Rightarrow> string \<Rightarrow> real \<Rightarrow> alerts" where
  "setAlert now stockAlerts symbol p =
     stockAlerts (symbol \<mapsto> \<lparr> alert_price = p, created = now, triggered = False \<rparr>)"

text \<open>
  \<open>parseFloat(this.data.regularMarketPrice || this.data.price || 0)\<close>, on fields that
  hold numbers.
\<close>

definition currentPrice_of :: "quote \<Rightarrow> real" where
  "currentPrice_of d = or_else (regularMarketPrice d) (or_else (price d) 0)"

text \<open>
  The test of \<open>checkAlerts\<close>: it compares the alert's price with \<open>alert.created\<close>, the
  timestamp, to choose between the two comparisons with the current price.
\<close>

definition alert_condition :: "alert \<Rightarrow> real \<Rightarrow> bool" where
  "alert_condition a currentPrice \<longleftrightarrow>
     (alert_price a \<ge> of_int (created a) \<and> currentPrice \<ge> alert_price a) \<or>
     (alert_price a < of_int (created a) \<and> currentPrice \<le> alert_price a)"

text \<open>
  \<open>checkAlerts()\<close> of the card of \<open>symbol\<close> whose \<open>this.data\<close> is \<open>d\<close>: the alerts
  object written back and, when the alert fires, the arguments of \<open>triggerAlert\<close>
  (the alert's price and the current price).
\<close>

definition checkAlerts :: "string \<Rightarrow> quote option \<Rightarrow> alerts \<Rightarrow> alerts \<times> (real \<times> real) option" where
  "checkAlerts symbol d stockAlerts =
     (case (stockAlerts symbol, d) of
        (Some a, Some q) \<Rightarrow>
          if \<not> triggered a \<and> alert_condition a (currentPrice_of q)
          then (stockAlerts (symbol \<mapsto> a \<lparr> triggered := True \<rparr>),
                Some (alert_price a, currentPrice_of q))
          else (stockAlerts, None)
      | _ \<Rightarrow> (stockAlerts, None))"

text \<open>Whether \<open>checkAlerts\<close> calls \<open>triggerAlert\<close> on the snapshot \<open>q\<close>.\<close>

definition fires :: "string \<Rightarrow> quote \<Rightarrow> alerts \<Rightarrow> bool" where
  "fires symbol_name q stockAlerts \<longleftrightarrow> snd (checkAlerts symbol_name (Some q) stockAlerts) \<noteq> None"

text \<open>A quote that carries only a market price.\<close>

definition quote_at :: "real \<Rightarrow> quote" where
  "quote_at p = \<lparr> regularMarketPrice = Some p, price = None,
                  regularMarketPreviousClose = None, regularMarketTime = None \<rparr>"

text \<open>
  A sequence of snapshots for the card of \<open>symbol\<close>: each price becomes the card's data
  and \<open>checkAlerts\<close> runs on it. The result lists, per snapshot, what fired.
\<close>

fun evaluate_prices :: "string \<Rightarrow> alerts \<Rightarrow> real list \<Rightarrow> alerts \<times> (real \<times> real) option list" where
  "evaluate_prices symbol stockAlerts [] = (stockAlerts, [])"
| "evaluate_prices symbol stockAlerts (p # ps) =
     (let (stockAlerts', fired) = checkAlerts symbol (Some (quote_at p)) stockAlerts;
          (stockAlerts'', rest) = evaluate_prices symbol stockAlerts' ps
      in (stockAlerts'', fired # rest))"

subsection \<open>StockCard: loading and auto refresh\<close>

text \<open>
  The fields of a card that loading reads and writes, the option \<open>autoRefresh\<close> as
  \<open>refreshTimer\<close> (whether the interval timer is armed), and a log of the instants at
  which the card called \<open>fetch\<close>, with the number of those calls that have not settled
  yet. The log and the count are observations: the code keeps neither. The card has no
  count of failures and no paused state.
\<close>

record card =
  symbol :: string
  data :: "quote option"
  previousData :: "quote option"
  isLoading :: bool
  hasError :: bool
  refreshTimer :: bool
  fetch_log :: "int list"
  outstanding :: nat

text \<open>
  How the awaited \<open>fetch\<close> of \<open>loadData\<close> ends: a body with \<open>success\<close> and the data, or
  one of the failures that the \<open>catch\<close> receives (a rejected fetch, a response that is
  not ok, a body that does not parse or reports an error).
\<close>

datatype fetch_result = Loaded quote | Failed string

text \<open>
  \<open>loadData\<close> up to its \<open>await\<close>, at the instant \<open>now\<close>: nothing when a load is
  pending; else \<open>setLoading(true)\<close>, \<open>setError(false)\<close> and the call of \<open>fetch\<close>.
\<close>

definition loadData :: "int \<Rightarrow> card \<Rightarrow> card" where
  "loadData now c =
     (if isLoading c then c
      else c \<lparr> isLoading := True, hasError := False,
               fetch_log := fetch_log c @ [now], outstanding := outstanding c + 1 \<rparr>)"

text \<open>
  \<open>loadData\<close> from its \<open>await\<close> on, when the fetch has settled with \<open>r\<close>: the data is
  replaced or the error is set, and \<open>finally\<close> clears \<open>isLoading\<close>.
\<close>

definition loadData_settled :: "fetch_result \<Rightarrow> card \<Rightarrow> card" where
  "loadData_settled r c =
     (let c' = (case r of
                  Loaded q \<Rightarrow> c \<lparr> previousData := data c, data := Some q \<rparr>
                | Failed message \<Rightarrow> c \<lparr> hasError := True \<rparr>)
      in c' \<lparr> isLoading := False, outstanding := outstanding c - 1 \<rparr>)"

text \<open>
  What can happen to a card: a click on refresh, a click on retry, a tick of the
  interval timer of \<open>startAutoRefresh\<close> (with \<open>document.hidden\<close> at that instant), and
  the settling of an outstanding fetch.
\<close>

datatype event = Refresh | Retry | Tick bool | Settled fetch_result

fun step :: "int \<times> event \<Rightarrow> card \<Rightarrow> card" where
  "step (now, Refresh) c = loadData now c"
| "step (now, Retry) c = loadData now (c \<lparr> hasError := False \<rparr>)"
| "step (now, Tick hidden) c =
     (if refreshTimer c \<and> \<not> hidden \<and> \<not> isLoading c then loadData now c else c)"
| "step (now, Settled r) c =
     (if outstanding c > 0 then loadData_settled r c else c)"

text \<open>The events of a session, each with its instant, in the order of the event loop.\<close>

fun run :: "(int \<times> event) list \<Rightarrow> card \<Rightarrow> card" where
  "run [] c = c"
| "run (e # es) c = run es (step e c)"

text \<open>
  The constructor at the instant \<open>now\<close>: the fields are initialised, \<open>init\<close> calls
  \<open>loadData\<close> and, with the option \<open>autoRefresh\<close>, \<open>startAutoRefresh\<close>.
\<close>

definition new_card :: "int \<Rightarrow> string \<Rightarrow> bool \<Rightarrow> card" where
  "new_card now symbol_name autoRefresh =
     (loadData now \<lparr> symbol = symbol_name, data = None, previousData = None, isLoading = False,
                     hasError = False, refreshTimer = False, fetch_log = [],
                     outstanding = 0 \<rparr>) \<lparr> refreshTimer := autoRefresh \<rparr>"

subsection \<open>StockDashboard.updateStats\<close>

text \<open>
  The result of a JavaScript division: a number, or one of the values that a division by
  zero yields. Rounding of floating point is not modelled: a finite result is the real
  quotient.
\<close>

datatype jsnum = Finite real | Infinity | NegInfinity | NaN

definition js_div :: "real \<Rightarrow> real \<Rightarrow> jsnum" where
  "js_div a b =
     (if b \<noteq> 0 then Finite (a / b)
      else if a > 0 then Infinity
      else if a < 0 then NegInfinity
      else NaN)"

fun js_times :: "jsnum \<Rightarrow> real \<Rightarrow> jsnum" where
  "js_times (Finite x) k = Finite (x * k)"
| "js_times n k = n"

text \<open>
  The test \<open>data && data.regularMarketPrice && data.regularMarketPreviousClose\<close> on the
  data of one card.
\<close>

definition has_prices :: "quote option \<Rightarrow> bool" where
  "has_prices d =
     (case d of
        None \<Rightarrow> False
      | Some q \<Rightarrow> truthy (regularMarketPrice q) \<and> truthy (regularMarketPreviousClose q))"

text \<open>
  The body of the \<open>forEach\<close> over the cards: the accumulators are \<open>totalValue\<close>,
  \<open>totalChange\<close> and \<open>validCards\<close>.
\<close>

definition add_card :: "real \<times> real \<times> nat \<Rightarrow> quote option \<Rightarrow> real \<times> real \<times> nat" where
  "add_card acc d =
     (case acc of (totalValue, totalChange, validCards) \<Rightarrow>
        if has_prices d then
          (let p = the (regularMarketPrice (the d));
               previousClose = the (regularMarketPreviousClose (the d))
           in (totalValue + p, totalChange + (p - previousClose), validCards + 1))
        else acc)"

text \<open>
  \<open>updateStats\<close> on the data of the cards (\<open>card.getData()\<close> of each, in the order of
  the map): the totals and the percentage that the portfolio element shows, or \<open>None\<close>
  when no card is valid and the element is left as it was.
\<close>

definition updateStats :: "quote option list \<Rightarrow> (real \<times> real \<times> jsnum) option" where
  "updateStats stockCards =
     (case foldl add_card (0, 0, 0) stockCards of (totalValue, totalChange, validCards) \<Rightarrow>
        if validCards > 0 then
          Some (totalValue, totalChange,
                if totalValue > 0
                then js_times (js_div totalChange (totalValue - totalChange)) 100
                else Finite 0)
        else None)"

text \<open>The price and the change of a card with prices.\<close>

definition price_of :: "quote option \<Rightarrow> real" where
  "price_of d = the (regularMarketPrice (the d))"

definition change_of :: "quote option \<Rightarrow> real" where
  "change_of d = the (regularMarketPrice (the d)) - the (regularMarketPreviousClose (the d))"

text \<open>A quote with a market price and a previous close.\<close>

definition quote_with :: "real \<Rightarrow> real \<Rightarrow> quote" where
  "quote_with p previousClose =
     \<lparr> regularMarketPrice = Some p, price = None,
       regularMarketPreviousClose = Some previousClose, regularMarketTime = None \<rparr>"

subsection \<open>Utils.getMarketStatus\<close>

text \<open>
  Calendar dates are day numbers, counted from 1970-01-01 (day 0, a Thursday), in the
  proleptic Gregorian calendar of JavaScript's \<open>Date\<close>. \<open>days_from_civil\<close> gives the
  number of a year, month and day; \<open>civil_from_days\<close> is its inverse.
\<close>

definition days_from_civil :: "int \<Rightarrow> int \<Rightarrow> int \<Rightarrow> int" where
  "days_from_civil y m d =
     (let y' = (if m \<le> 2 then y - 1 else y);
          era = y' div 400;
          yoe = y' - era * 400;
          doy = (153 * (if m > 2 then m - 3 else m + 9) + 2) div 5 + d - 1;
          doe = yoe * 365 + yoe div 4 - yoe div 100 + doy
      in era * 146097 + doe - 719468)"

definition civil_from_days :: "int \<Rightarrow> int \<times> int \<times> int" where
  "civil_from_days n =
     (let z = n + 719468;
          era = z div 146097;
          doe = z - era * 146097;
          yoe = (doe - doe div 1460 + doe div 36524 - doe div 146096) div 365;
          doy = doe - (365 * yoe + yoe div 4 - yoe div 100);
          mp = (5 * doy + 2) div 153;
          d = doy - (153 * mp + 2) div 5 + 1;
          m = (if mp < 10 then mp + 3 else mp - 9);
          y = yoe + era * 400 + (if m \<le> 2 then 1 else 0)
      in (y, m, d))"

text \<open>Decimal digits, padded with zeros to two and to four places.\<close>

definition digit :: "int \<Rightarrow> char" where
  "digit n = ''0123456789'' ! nat (n mod 10)"

definition pad2 :: "int \<Rightarrow> string" where
  "pad2 n = [digit (n div 10), digit n]"

definition pad4 :: "int \<Rightarrow> string" where
  "pad4 n = [digit (n div 1000), digit (n div 100), digit (n div 10), digit n]"

text \<open>
  A \<open>Date\<close> object, by what its accessors return in the browser: the calendar day and
  the minutes since midnight in the browser's local time, and \<open>getTimezoneOffset()\<close>,
  the minutes that UTC is ahead of that local time (300 in New York in winter, 0 in a
  browser on UTC).
\<close>

record js_date =
  local_day :: int
  local_minutes :: int
  timezoneOffset :: int

text \<open>\<open>getDay()\<close>: the day of the week of the local date, 0 for Sunday.\<close>

definition getDay :: "js_date \<Rightarrow> nat" where
  "getDay d = nat ((local_day d + 4) mod 7)"

text \<open>\<open>toTimeString().slice(0, 5)\<close>: the local time as HH:MM.\<close>

definition toTimeString_5 :: "js_date \<Rightarrow> string" where
  "toTimeString_5 d = pad2 (local_minutes d div 60) @ '':'' @ pad2 (local_minutes d mod 60)"

text \<open>
  \<open>toISOString().slice(0, 10)\<close>: the date in UTC, as YYYY-MM-DD (for the years 0 to
  9999). UTC is the local time plus the time zone offset.
\<close>

definition toISOString_10 :: "js_date \<Rightarrow> string" where
  "toISOString_10 d =
     (case civil_from_days ((local_day d * 1440 + local_minutes d + timezoneOffset d) div 1440) of
        (y, m, dd) \<Rightarrow> pad4 y @ ''-'' @ pad2 m @ ''-'' @ pad2 dd)"

text \<open>
  The wall clock of the market: the date and the minutes since midnight that
  \<open>now.toLocaleString("en-US", {timeZone: ...})\<close> prints for the instant \<open>now\<close>.
\<close>

record wall_clock =
  clock_day :: int
  clock_minutes :: int

text \<open>The date of a day number as YYYY-MM-DD: the form of the entries of \<open>HOLIDAYS\<close>.\<close>

definition iso_date :: "int \<Rightarrow> string" where
  "iso_date n = (case civil_from_days n of (y, m, d) \<Rightarrow> pad4 y @ ''-'' @ pad2 m @ ''-'' @ pad2 d)"

record market_status =
  isOpen :: bool
  isTradingDay :: bool
  isHoliday :: bool
  isExtendedHours :: bool
  isPreMarket :: bool
  isAfterHours :: bool
  status :: string
  statusText :: string

text \<open>
  \<open>getMarketStatus(date)\<close> for an instant whose market wall clock is \<open>clock\<close>, in a
  browser whose time zone offset is \<open>browserOffset\<close>. \<open>new Date(string)\<close> reads the
  printed wall clock as a local time of the browser, so \<open>marketTime\<close> has the market's
  date and time in its local fields. \<open>day\<close> and \<open>timeString\<close> are local accessors;
  \<open>dateString\<close> comes from \<open>toISOString()\<close>, which is in UTC. The comparisons of
  strings are lexicographic on the characters, as in JavaScript.
\<close>

definition getMarketStatus :: "config \<Rightarrow> int \<Rightarrow> wall_clock \<Rightarrow> market_status" where
  "getMarketStatus cfg browserOffset clock =
     (let marketTime = \<lparr> local_day = clock_day clock, local_minutes = clock_minutes clock,
                          timezoneOffset = browserOffset \<rparr>;
          day = getDay marketTime;
          timeString = toTimeString_5 marketTime;
          tradingDay = day \<in> set (TRADING_DAYS (MARKET cfg));
          dateString = toISOString_10 marketTime;
          holiday = dateString \<in> set (HOLIDAYS (MARKET cfg));
          marketHours = (timeString \<ge> OPEN (HOURS (MARKET cfg)) \<and>
                         timeString < CLOSE (HOURS (MARKET cfg)));
          preMarket = (timeString \<ge> PRE_MARKET_START (EXTENDED_HOURS (MARKET cfg)) \<and>
                       timeString < PRE_MARKET_END (EXTENDED_HOURS (MARKET cfg)));
          afterHours = (timeString \<ge> AFTER_HOURS_START (EXTENDED_HOURS (MARKET cfg)) \<and>
                        timeString < AFTER_HOURS_END (EXTENDED_HOURS (MARKET cfg)));
          is_open = (tradingDay \<and> \<not> holiday \<and> marketHours);
          extendedHours = (tradingDay \<and> \<not> holiday \<and> (preMarket \<or> afterHours))
      in \<lparr> isOpen = is_open,
           isTradingDay = tradingDay,
           isHoliday = holiday,
           isExtendedHours = extendedHours,
           isPreMarket = preMarket,
           isAfterHours = afterHours,
           status = (if is_open then ''open'' else if extendedHours then ''extended'' else ''closed''),
           statusText =
             (if is_open then ''Market Open''
              else if extendedHours then ''Extended Hours''
              else if holiday then ''Market Holiday''
              else if \<not> tradingDay then ''Market Closed - Weekend''
              else ''Market Closed'') \<rparr>)"

text \<open>The time-of-day windows of the configuration.\<close>

definition in_market_hours :: "config \<Rightarrow> string \<Rightarrow> bool" where
  "in_market_hours cfg t \<longleftrightarrow>
     OPEN (HOURS (MARKET cfg)) \<le> t \<and> t < CLOSE (HOURS (MARKET cfg))"

definition in_pre_market :: "config \<Rightarrow> string \<Rightarrow> bool" where
  "in_pre_market cfg t \<longleftrightarrow>
     PRE_MARKET_START (EXTENDED_HOURS (MARKET cfg)) \<le> t \<and>
     t < PRE_MARKET_END (EXTENDED_HOURS (MARKET cfg))"

definition in_after_hours :: "config \<Rightarrow> string \<Rightarrow> bool" where
  "in_after_hours cfg t \<longleftrightarrow>
     AFTER_HOURS_START (EXTENDED_HOURS (MARKET cfg)) \<le> t \<and>
     t < AFTER_HOURS_END (EXTENDED_HOURS (MARKET cfg))"

subsection \<open>Utils.makeRequest\<close>

text \<open>
  The options of a request that the retry logic reads; \<open>options.retries || ...\<close> and
  \<open>options.retryDelay || ...\<close> fall back to the configuration.
\<close>

record request_options =
  retries :: "int option"
  retryDelay :: "int option"

text \<open>
  How a request ends: a response with an HTTP status, a network error, or a timeout.
\<close>

datatype xhr_completion = Response nat | NetworkFailure | TimedOut

text \<open>
  The handlers that the browser's \<open>XMLHttpRequest\<close> calls when a request ends, in
  order. A response changes \<open>readyState\<close> to 4 with its status. A network error and a
  timeout also change \<open>readyState\<close> to 4, with the status 0, and after that the
  \<open>error\<close> or the \<open>timeout\<close> event is fired: both handlers of the code run.
\<close>

datatype handler_call = Onreadystatechange nat | Onerror | Ontimeout

fun handler_calls :: "xhr_completion \<Rightarrow> handler_call list" where
  "handler_calls (Response st) = [Onreadystatechange st]"
| "handler_calls NetworkFailure = [Onreadystatechange 0, Onerror]"
| "handler_calls TimedOut = [Onreadystatechange 0, Ontimeout]"

datatype request_error = HttpError nat | NetworkError | RequestTimeout

datatype request_result = Resolved nat | Rejected request_error

text \<open>
  What waits in the event loop: a call of \<open>attemptRequest\<close> set by \<open>setTimeout\<close>, or
  the end of the request that was sent when \<open>attempts\<close> became \<open>n\<close>.
\<close>

datatype task = AttemptRequest | Completed nat

text \<open>
  The state of one \<open>makeRequest\<close>: the counter \<open>attempts\<close> of the closure, the promise
  (\<open>None\<close> while it is pending), the delays passed to \<open>setTimeout\<close> in order, and the
  tasks that wait, each with the instant at which it is due.
\<close>

record request_state =
  attempts :: nat
  promise :: "request_result option"
  delays :: "int list"
  tasks :: "(int \<times> task) list"

text \<open>\<open>resolve\<close> and \<open>reject\<close>: a promise settles once; later calls change nothing.\<close>

definition settle :: "request_result \<Rightarrow> request_state \<Rightarrow> request_state" where
  "settle r s = (if promise s = None then s \<lparr> promise := Some r \<rparr> else s)"

text \<open>
  The branch that the three handlers share: while \<open>attempts < maxAttempts\<close>,
  \<open>setTimeout(attemptRequest, delay * attempts)\<close>; else \<open>reject\<close>.
\<close>

definition retry_or_reject ::
  "int \<Rightarrow> int \<Rightarrow> int \<Rightarrow> request_error \<Rightarrow> request_state \<Rightarrow> request_state" where
  "retry_or_reject maxAttempts delay now e s =
     (if int (attempts s) < maxAttempts
      then s \<lparr> delays := delays s @ [delay * int (attempts s)],
               tasks := tasks s @ [(now + delay * int (attempts s), AttemptRequest)] \<rparr>
      else settle (Rejected e) s)"

fun handler :: "int \<Rightarrow> int \<Rightarrow> int \<Rightarrow> request_state \<Rightarrow> handler_call \<Rightarrow> request_state" where
  "handler maxAttempts delay now s (Onreadystatechange st) =
     (if 200 \<le> st \<and> st < 300 then settle (Resolved st) s
      else retry_or_reject maxAttempts delay now (HttpError st) s)"
| "handler maxAttempts delay now s Onerror =
     retry_or_reject maxAttempts delay now NetworkError s"
| "handler maxAttempts delay now s Ontimeout =
     retry_or_reject maxAttempts delay now RequestTimeout s"

text \<open>
  One task at the instant \<open>now\<close>. \<open>source n\<close> is how the \<open>n\<close>-th request sent ends and
  how long it takes. \<open>attemptRequest\<close> increments \<open>attempts\<close> and sends a request; the
  end of a request runs its handlers.
\<close>

fun run_task ::
  "(nat \<Rightarrow> xhr_completion \<times> int) \<Rightarrow> int \<Rightarrow> int \<Rightarrow> int \<times> task \<Rightarrow> request_state \<Rightarrow> request_state" where
  "run_task source maxAttempts delay (now, AttemptRequest) s =
     s \<lparr> attempts := attempts s + 1,
         tasks := tasks s @ [(now + snd (source (attempts s + 1)), Completed (attempts s + 1))] \<rparr>"
| "run_task source maxAttempts delay (now, Completed n) s =
     foldl (handler maxAttempts delay now) s (handler_calls (fst (source n)))"

text \<open>
  The task that runs next: the one that is due first and, among tasks due at the same
  instant, the one that was set first. \<open>next_task\<close> returns it with the tasks that stay.
\<close>

fun next_task :: "(int \<times> task) list \<Rightarrow> ((int \<times> task) \<times> (int \<times> task) list) option" where
  "next_task [] = None"
| "next_task (t # ts) =
     (case next_task ts of
        None \<Rightarrow> Some (t, [])
      | Some (u, us) \<Rightarrow> if fst u < fst t then Some (u, t # us) else Some (t, ts))"

text \<open>
  The event loop, for at most \<open>fuel\<close> tasks: it ends when no task waits, and is \<open>None\<close>
  when tasks are left after \<open>fuel\<close> of them have run.
\<close>

fun event_loop ::
  "nat \<Rightarrow> (nat \<Rightarrow> xhr_completion \<times> int) \<Rightarrow> int \<Rightarrow> int \<Rightarrow> request_state \<Rightarrow> request_state option" where
  "event_loop 0 source maxAttempts delay s =
     (case next_task (tasks s) of
        None \<Rightarrow> Some s
      | Some (t, ts) \<Rightarrow> None)"
| "event_loop (Suc fuel) source maxAttempts delay s =
     (case next_task (tasks s) of
        None \<Rightarrow> Some s
      | Some (t, ts) \<Rightarrow>
          event_loop fuel source maxAttempts delay
            (run_task source maxAttempts delay t (s \<lparr> tasks := ts \<rparr>)))"

text \<open>
  \<open>makeRequest(url, options)\<close>, called at the instant 0: the first \<open>attemptRequest()\<close>
  runs at once and the event loop does the rest. The result is the promise when all is
  done, the number of requests sent and the delays passed to \<open>setTimeout\<close>.
\<close>

definition makeRequest ::
  "nat \<Rightarrow> config \<Rightarrow> (nat \<Rightarrow> xhr_completion \<times> int) \<Rightarrow> request_options \<Rightarrow>
     (request_result option \<times> nat \<times> int list) option" where
  "makeRequest fuel cfg source options =
     (let maxAttempts = or_else (retries options) (RETRY_ATTEMPTS (API cfg));
          delay = or_else (retryDelay options) (RETRY_DELAY (API cfg))
      in map_option (\<lambda>s. (promise s, attempts s, delays s))
           (event_loop fuel source maxAttempts delay
              (run_task source maxAttempts delay (0, AttemptRequest)
                 \<lparr> attempts = 0, promise = None, delays = [], tasks = [] \<rparr>)))"

section \<open>Theorems\<close>

subsection \<open>Configuration\<close>

lemma validateConfig_errors_empty:
  "validateConfig_errors c = [] \<longleftrightarrow> constraints_hold c"
  by (auto simp: validateConfig_errors_def constraints_hold_def)

lemma validateConfig_ok:
  "validateConfig c = Inr () \<longleftrightarrow> constraints_hold c"
  by (simp add: validateConfig_def Let_def validateConfig_errors_empty [symmetric])

lemma validateConfig_throws:
  "(\<exists>msg. validateConfig c = Inl msg) \<longleftrightarrow> \<not> constraints_hold c"
  by (simp add: validateConfig_def Let_def validateConfig_errors_empty [symmetric])

text \<open>
  C10. \<open>initializeConfig\<close> returns \<open>true\<close> only if the configuration after the
  environment merge satisfies the four constraints (minimum interval below the maximum,
  default interval between them, positive cache size, currency decimals from 0 to 10);
  when one of them is violated, \<open>validateConfig\<close> throws and \<open>initializeConfig\<close>
  returns \<open>false\<close>: the exception does not leave it.
\<close>

theorem initializeConfig_validates:
  "(snd (initializeConfig c) \<longrightarrow> constraints_hold (applyEnvironmentConfig c)) \<and>
   (\<not> constraints_hold (applyEnvironmentConfig c) \<longrightarrow>
      (\<exists>msg. validateConfig (applyEnvironmentConfig c) = Inl msg) \<and>
      initializeConfig c = (applyEnvironmentConfig c, False))"
proof -
  let ?c = "applyEnvironmentConfig c"
  show ?thesis
  proof (cases "constraints_hold ?c")
    case True
    then show ?thesis by simp
  next
    case False
    then obtain msg where "validateConfig ?c = Inl msg"
      using validateConfig_throws [of ?c] by blast
    with False show ?thesis
      by (simp add: initializeConfig_def Let_def)
  qed
qed

theorem initializeConfig_validates_witness:
  "snd (initializeConfig CONFIG) \<and>
   constraints_hold (applyEnvironmentConfig CONFIG) \<and>
   \<not> constraints_hold (applyEnvironmentConfig (CONFIG \<lparr> CACHE := (CACHE CONFIG) \<lparr> MAX_SIZE := 0 \<rparr> \<rparr>)) \<and>
   (\<exists>msg. validateConfig (applyEnvironmentConfig (CONFIG \<lparr> CACHE := (CACHE CONFIG) \<lparr> MAX_SIZE := 0 \<rparr> \<rparr>)) = Inl msg) \<and>
   \<not> snd (initializeConfig (CONFIG \<lparr> CACHE := (CACHE CONFIG) \<lparr> MAX_SIZE := 0 \<rparr> \<rparr>))"
proof -
  let ?bad = "CONFIG \<lparr> CACHE := (CACHE CONFIG) \<lparr> MAX_SIZE := 0 \<rparr> \<rparr>"
  have ok: "snd (initializeConfig CONFIG)"
    by (simp add: initializeConfig_def validateConfig_def validateConfig_errors_def
        applyEnvironmentConfig_def CONFIG_def Let_def)
  have bad: "\<not> constraints_hold (applyEnvironmentConfig ?bad)"
    by (simp add: constraints_hold_def applyEnvironmentConfig_def CONFIG_def Let_def)
  from initializeConfig_validates [of CONFIG] ok
  have "constraints_hold (applyEnvironmentConfig CONFIG)" by blast
  moreover from initializeConfig_validates [of ?bad] bad
  have "(\<exists>msg. validateConfig (applyEnvironmentConfig ?bad) = Inl msg) \<and>
        initializeConfig ?bad = (applyEnvironmentConfig ?bad, False)" by blast
  ultimately show ?thesis using ok bad by simp
qed

subsection \<open>Cache reads and writes\<close>

lemma setLocalStorage_accepted:
  "setLocalStorage False now storage key v e =
     (storage (key \<mapsto> Json \<lparr> item_value = v, timestamp = now,
        expiry = (if truthy e then Some (now + the e) else None) \<rparr>), True)"
  by (simp add: setLocalStorage_def)

lemma setLocalStorage_refused:
  "setLocalStorage True now storage key v e = (storage, False)"
  by (simp add: setLocalStorage_def)

lemma stored_value_after_write:
  "stored_value (fst (setLocalStorage False now storage key v e)) key = Some v"
  by (simp add: setLocalStorage_accepted stored_value_def)

lemma write_all_append:
  "write_all storage key (ws @ [(now, v, e)]) =
     fst (setLocalStorage False now (write_all storage key ws) key v e)"
  by (induction storage key ws rule: write_all.induct) simp_all

text \<open>
  C6. For a key stored with an expiry time \<open>expiresAt\<close> (the \<open>expiry\<close> field of the item
  is set; \<open>null\<close> and 0 are the code's "no expiry"), a read at an instant
  \<open>now > expiresAt\<close> returns the default value and removes the entry, and a read at an
  instant \<open>now \<le> expiresAt\<close>, the boundary included, returns the stored value and
  leaves the storage as it is.
\<close>

theorem getLocalStorage_expiry:
  assumes "storage key = Some (Json it)" and "expiry it = Some expiresAt" and "expiresAt \<noteq> 0"
  shows "(now > expiresAt \<longrightarrow>
            getLocalStorage now storage key d = (storage (key := None), d)) \<and>
         (now \<le> expiresAt \<longrightarrow>
            getLocalStorage now storage key d = (storage, item_value it))"
  using assms by (simp add: getLocalStorage_def)

theorem getLocalStorage_expiry_witness:
  "getLocalStorage 5001 [''stock-data-AAPL'' \<mapsto> Json \<lparr> item_value = (150::int), timestamp = 1000, expiry = Some 5000 \<rparr>]
       ''stock-data-AAPL'' 0 = (Map.empty, 0) \<and>
   getLocalStorage 5000 [''stock-data-AAPL'' \<mapsto> Json \<lparr> item_value = (150::int), timestamp = 1000, expiry = Some 5000 \<rparr>]
       ''stock-data-AAPL'' 0 =
     ([''stock-data-AAPL'' \<mapsto> Json \<lparr> item_value = 150, timestamp = 1000, expiry = Some 5000 \<rparr>], 150)"
proof -
  let ?it = "\<lparr> item_value = (150::int), timestamp = 1000, expiry = Some 5000 \<rparr>"
  let ?st = "[''stock-data-AAPL'' \<mapsto> Json ?it]"
  have a: "?st ''stock-data-AAPL'' = Some (Json ?it)" by simp
  have b: "expiry ?it = Some 5000" by simp
  have c: "(5000::int) \<noteq> 0" by simp
  from getLocalStorage_expiry [of ?st "''stock-data-AAPL''" ?it 5000 5001 0] a b c
  have "getLocalStorage 5001 ?st ''stock-data-AAPL'' 0 = (?st (''stock-data-AAPL'' := None), 0)"
    by simp
  moreover from getLocalStorage_expiry [of ?st "''stock-data-AAPL''" ?it 5000 5000 0] a b c
  have "getLocalStorage 5000 ?st ''stock-data-AAPL'' 0 = (?st, item_value ?it)"
    by simp
  ultimately show ?thesis by simp
qed

text \<open>
  C3, as the claim states it, fails: \<open>setLocalStorage\<close> never reads the stored entry.
  The storage holds a quote of time 200 for the key; a write of a quote of time 100 is
  accepted and replaces it.
\<close>

theorem stale_write_counterexample:
  "asOf \<lparr> regularMarketPrice = Some 151, price = None, regularMarketPreviousClose = Some 149,
          regularMarketTime = Some 200 \<rparr>
     > asOf \<lparr> regularMarketPrice = Some 150, price = None, regularMarketPreviousClose = Some 149,
          regularMarketTime = Some 100 \<rparr> \<and>
   setLocalStorage False 2000
     [''stock-data-AAPL'' \<mapsto> Json \<lparr> item_value =
         \<lparr> regularMarketPrice = Some 151, price = None, regularMarketPreviousClose = Some 149,
           regularMarketTime = Some 200 \<rparr>, timestamp = 1000, expiry = Some 31000 \<rparr>]
     ''stock-data-AAPL''
     \<lparr> regularMarketPrice = Some 150, price = None, regularMarketPreviousClose = Some 149,
       regularMarketTime = Some 100 \<rparr>
     (Some 30000)
   = ([''stock-data-AAPL'' \<mapsto> Json \<lparr> item_value =
         \<lparr> regularMarketPrice = Some 150, price = None, regularMarketPreviousClose = Some 149,
           regularMarketTime = Some 100 \<rparr>, timestamp = 2000, expiry = Some 32000 \<rparr>], True)"
  by (simp add: setLocalStorage_def asOf_def)

text \<open>
  C3, amended. A cache write that \<open>localStorage\<close> accepts replaces the entry stored
  under the key, whatever that entry holds: after any non-empty sequence of accepted
  writes under a key, the value stored there is the value of the last write. No
  \<open>asOf\<close> is compared, so the stored \<open>asOf\<close> follows the order of the writes.
\<close>

theorem write_all_last_write_wins:
  "ws \<noteq> [] \<Longrightarrow> stored_value (write_all storage key ws) key = Some (fst (snd (last ws)))"
proof (induction ws rule: rev_induct)
  case Nil
  then show ?case by simp
next
  case (snoc w ws)
  obtain now v e where w: "w = (now, v, e)" by (cases w)
  show ?case
    unfolding w write_all_append by (simp add: stored_value_after_write)
qed

theorem write_all_last_write_wins_witness:
  "stored_value
     (write_all Map.empty ''stock-data-AAPL''
        [(1000, \<lparr> regularMarketPrice = Some 151, price = None, regularMarketPreviousClose = Some 149,
                  regularMarketTime = Some 200 \<rparr>, Some 30000),
         (2000, \<lparr> regularMarketPrice = Some 150, price = None, regularMarketPreviousClose = Some 149,
                  regularMarketTime = Some 100 \<rparr>, Some 30000)])
     ''stock-data-AAPL''
   = Some \<lparr> regularMarketPrice = Some 150, price = None, regularMarketPreviousClose = Some 149,
            regularMarketTime = Some 100 \<rparr>"
  using write_all_last_write_wins
    [of "[(1000, \<lparr> regularMarketPrice = Some 151, price = None, regularMarketPreviousClose = Some 149,
                  regularMarketTime = Some 200 \<rparr>, Some 30000),
         (2000, \<lparr> regularMarketPrice = Some 150, price = None, regularMarketPreviousClose = Some 149,
                  regularMarketTime = Some 100 \<rparr>, Some (30000::int))]"
        Map.empty "''stock-data-AAPL''"]
  by simp


subsection \<open>Price alerts\<close>

lemma checkAlerts_triggered_noop:
  "stockAlerts symbol_name = Some a \<Longrightarrow> triggered a \<Longrightarrow>
     checkAlerts symbol_name d stockAlerts = (stockAlerts, None)"
  by (cases d) (simp_all add: checkAlerts_def)

lemma checkAlerts_fired_once:
  "checkAlerts symbol_name d stockAlerts = (stockAlerts', Some f) \<Longrightarrow>
     checkAlerts symbol_name d' stockAlerts' = (stockAlerts', None)"
  by (cases d; cases d'; cases "stockAlerts symbol_name")
     (auto simp: checkAlerts_def split: if_splits)

lemma alert_condition_after_setAlert:
  "p < of_int now \<Longrightarrow>
     alert_condition \<lparr> alert_price = p, created = now, triggered = False \<rparr> currentPrice
       \<longleftrightarrow> currentPrice \<le> p"
  by (auto simp: alert_condition_def)

text \<open>
  C1, as the claim states it, fails: no alert has the direction \<open>change\<close>. An alert of
  5 (per cent) is set on 2025-01-15 (timestamp 1736899200000) while the price is 100;
  the next snapshot carries 110, a change of 10 per cent, and \<open>checkAlerts\<close> does not
  fire: the alert object holds no price of creation and 5 is read as a price.
\<close>

theorem change_alert_counterexample:
  "checkAlerts ''AAPL'' (Some (quote_at 110)) (setAlert 1736899200000 Map.empty ''AAPL'' 5) =
     (setAlert 1736899200000 Map.empty ''AAPL'' 5, None) \<and>
   \<bar>(currentPrice_of (quote_at 110) - currentPrice_of (quote_at 100)) / currentPrice_of (quote_at 100)\<bar> * 100 \<ge> 5"
  by (simp add: checkAlerts_def setAlert_def alert_condition_def currentPrice_of_def quote_at_def)

lemma fires_iff:
  "stockAlerts symbol_name = Some a \<Longrightarrow> \<not> triggered a \<Longrightarrow>
     fires symbol_name q stockAlerts \<longleftrightarrow> alert_condition a (currentPrice_of q)"
  by (simp add: fires_def checkAlerts_def)

lemma currentPrice_of_quote_at: "currentPrice_of (quote_at p) = p"
  by (simp add: currentPrice_of_def quote_at_def)

text \<open>
  C1, amended. An alert has no direction \<open>change\<close> and records no price of creation:
  its threshold is an absolute price and the alert is one-sided. For an alert that has
  not triggered: it fires on a snapshot whose price equals the threshold; if it fires on
  some price above the threshold, it fires on exactly the prices at or above the
  threshold; if it fires on some price below the threshold, it fires on exactly the
  prices at or below it. When it fires, \<open>triggerAlert\<close> receives the threshold and the
  current price, and no later evaluation fires it again.
\<close>

theorem alert_is_one_sided_threshold:
  assumes "stockAlerts symbol_name = Some a" and "\<not> triggered a"
  shows "fires symbol_name (quote_at (alert_price a)) stockAlerts \<and>
         (\<forall>p0 p. p0 > alert_price a \<and> fires symbol_name (quote_at p0) stockAlerts \<longrightarrow>
            (fires symbol_name (quote_at p) stockAlerts \<longleftrightarrow> p \<ge> alert_price a)) \<and>
         (\<forall>p0 p. p0 < alert_price a \<and> fires symbol_name (quote_at p0) stockAlerts \<longrightarrow>
            (fires symbol_name (quote_at p) stockAlerts \<longleftrightarrow> p \<le> alert_price a)) \<and>
         (\<forall>q stockAlerts' f d. checkAlerts symbol_name (Some q) stockAlerts = (stockAlerts', Some f) \<longrightarrow>
            f = (alert_price a, currentPrice_of q) \<and>
            checkAlerts symbol_name d stockAlerts' = (stockAlerts', None))"
proof -
  have f: "\<And>p. fires symbol_name (quote_at p) stockAlerts \<longleftrightarrow> alert_condition a p"
    using assms by (simp add: fires_iff currentPrice_of_quote_at)
  have 1: "fires symbol_name (quote_at (alert_price a)) stockAlerts"
    unfolding f by (auto simp: alert_condition_def)
  have 2: "\<forall>p0 p. p0 > alert_price a \<and> fires symbol_name (quote_at p0) stockAlerts \<longrightarrow>
            (fires symbol_name (quote_at p) stockAlerts \<longleftrightarrow> p \<ge> alert_price a)"
    unfolding f by (auto simp: alert_condition_def)
  have 3: "\<forall>p0 p. p0 < alert_price a \<and> fires symbol_name (quote_at p0) stockAlerts \<longrightarrow>
            (fires symbol_name (quote_at p) stockAlerts \<longleftrightarrow> p \<le> alert_price a)"
    unfolding f by (auto simp: alert_condition_def)
  have 4: "\<forall>q stockAlerts' f d. checkAlerts symbol_name (Some q) stockAlerts = (stockAlerts', Some f) \<longrightarrow>
            f = (alert_price a, currentPrice_of q) \<and>
            checkAlerts symbol_name d stockAlerts' = (stockAlerts', None)"
  proof (intro allI impI)
    fix q stockAlerts' f d
    assume c: "checkAlerts symbol_name (Some q) stockAlerts = (stockAlerts', Some f)"
    from c assms have "f = (alert_price a, currentPrice_of q)"
      by (auto simp: checkAlerts_def split: if_splits)
    moreover from c have "checkAlerts symbol_name d stockAlerts' = (stockAlerts', None)"
      by (rule checkAlerts_fired_once)
    ultimately show "f = (alert_price a, currentPrice_of q) \<and>
            checkAlerts symbol_name d stockAlerts' = (stockAlerts', None)" by simp
  qed
  from 1 2 3 4 show ?thesis by blast
qed

theorem alert_is_one_sided_threshold_witness:
  "fires ''AAPL'' (quote_at 100) (setAlert 1736899200000 Map.empty ''AAPL'' 100) \<and>
   fires ''AAPL'' (quote_at 95) (setAlert 1736899200000 Map.empty ''AAPL'' 100) \<and>
   \<not> fires ''AAPL'' (quote_at 101) (setAlert 1736899200000 Map.empty ''AAPL'' 100) \<and>
   checkAlerts ''AAPL'' (Some (quote_at 98))
     (fst (checkAlerts ''AAPL'' (Some (quote_at 95)) (setAlert 1736899200000 Map.empty ''AAPL'' 100))) =
     (fst (checkAlerts ''AAPL'' (Some (quote_at 95)) (setAlert 1736899200000 Map.empty ''AAPL'' 100)), None)"
proof -
  let ?a = "\<lparr> alert_price = 100, created = 1736899200000, triggered = False \<rparr>"
  let ?s = "setAlert 1736899200000 Map.empty ''AAPL'' 100"
  have a: "?s ''AAPL'' = Some ?a" by (simp add: setAlert_def)
  have b: "\<not> triggered ?a" by simp
  have c: "fires ''AAPL'' (quote_at 95) ?s"
    by (simp add: fires_def checkAlerts_def setAlert_def alert_condition_def
        currentPrice_of_def quote_at_def)
  have d: "checkAlerts ''AAPL'' (Some (quote_at 95)) ?s =
             (fst (checkAlerts ''AAPL'' (Some (quote_at 95)) ?s), Some (100, 95))"
    by (simp add: checkAlerts_def setAlert_def alert_condition_def
        currentPrice_of_def quote_at_def)
  note t = alert_is_one_sided_threshold [of ?s "''AAPL''" ?a, OF a b]
  have 1: "fires ''AAPL'' (quote_at 100) ?s"
    using t [THEN conjunct1] by simp
  have 2: "\<not> fires ''AAPL'' (quote_at 101) ?s"
    using t [THEN conjunct2, THEN conjunct2, THEN conjunct1, rule_format, of 95 101] c by simp
  have 3: "checkAlerts ''AAPL'' (Some (quote_at 98))
     (fst (checkAlerts ''AAPL'' (Some (quote_at 95)) ?s)) =
     (fst (checkAlerts ''AAPL'' (Some (quote_at 95)) ?s), None)"
    using t [THEN conjunct2, THEN conjunct2, THEN conjunct2, rule_format, OF d]
    by (rule conjunct2)
  from 1 c 2 3 show ?thesis by (intro conjI)
qed

text \<open>
  C2. The claim is what the alert should do; the code does something else. An alert at
  100 is set on 2025-01-15 (timestamp 1736899200000) and the prices 95, 98, 101, 105
  arrive in order. \<open>checkAlerts\<close> fires on 95, the first snapshot, because 100 is below
  the timestamp and the test then asks for a current price of at most 100; the three
  later evaluations find the alert triggered and do nothing.
\<close>

theorem above_alert_fires_on_first_snapshot:
  "evaluate_prices ''AAPL'' (setAlert 1736899200000 Map.empty ''AAPL'' 100) [95, 98, 101, 105] =
     ([''AAPL'' \<mapsto> \<lparr> alert_price = 100, created = 1736899200000, triggered = True \<rparr>],
      [Some (100, 95), None, None, None])"
  by (simp add: checkAlerts_def setAlert_def alert_condition_def currentPrice_of_def quote_at_def)

subsection \<open>Loading and auto refresh\<close>

lemma step_outstanding:
  "outstanding c = (if isLoading c then 1 else 0) \<Longrightarrow>
     outstanding (step e c) = (if isLoading (step e c) then 1 else 0)"
proof -
  assume inv: "outstanding c = (if isLoading c then 1 else 0)"
  obtain now ev where e: "e = (now, ev)" by (cases e)
  show ?thesis
  proof (cases ev)
    case Refresh
    with inv e show ?thesis by (simp add: loadData_def)
  next
    case Retry
    with inv e show ?thesis by (simp add: loadData_def)
  next
    case (Tick hidden)
    with inv e show ?thesis by (simp add: loadData_def)
  next
    case (Settled r)
    with inv e show ?thesis
      by (cases r) (simp_all add: loadData_settled_def)
  qed
qed

lemma run_outstanding:
  "outstanding c = (if isLoading c then 1 else 0) \<Longrightarrow>
     outstanding (run es c) = (if isLoading (run es c) then 1 else 0)"
proof (induction es arbitrary: c)
  case Nil
  then show ?case by simp
next
  case (Cons e es)
  from Cons.prems have "outstanding (step e c) = (if isLoading (step e c) then 1 else 0)"
    by (rule step_outstanding)
  then show ?case using Cons.IH by simp
qed

lemma new_card_outstanding:
  "outstanding (new_card t0 s ar) = (if isLoading (new_card t0 s ar) then 1 else 0)"
  by (simp add: new_card_def loadData_def)

lemma step_refreshTimer: "refreshTimer (step e c) = refreshTimer c"
proof -
  obtain now ev where e: "e = (now, ev)" by (cases e)
  show ?thesis
  proof (cases ev)
    case (Settled r)
    with e show ?thesis by (cases r) (simp_all add: loadData_settled_def)
  qed (simp_all add: e loadData_def)
qed

lemma run_refreshTimer: "refreshTimer (run es c) = refreshTimer c"
  by (induction es arbitrary: c) (simp_all add: step_refreshTimer)

text \<open>
  C8. At every instant of a card's life (after any events since its construction) at
  most one fetch of the card is outstanding, and while a load is pending a manual
  refresh and a tick of the auto-refresh timer each leave the card as it is: no fetch
  is issued and no field changes.
\<close>

theorem one_fetch_in_flight:
  "outstanding (run es (new_card t0 s ar)) \<le> 1 \<and>
   (isLoading (run es (new_card t0 s ar)) \<longrightarrow>
      step (now, Refresh) (run es (new_card t0 s ar)) = run es (new_card t0 s ar) \<and>
      step (now, Tick hidden) (run es (new_card t0 s ar)) = run es (new_card t0 s ar))"
  using run_outstanding [OF new_card_outstanding, of es t0 s ar]
  by (simp add: loadData_def)

theorem one_fetch_in_flight_witness:
  "outstanding (run [(100, Settled (Failed ''HTTP 500: '')), (200, Refresh), (300, Refresh)]
      (new_card 0 ''AAPL'' True)) = 1 \<and>
   isLoading (run [(100, Settled (Failed ''HTTP 500: '')), (200, Refresh), (300, Refresh)]
      (new_card 0 ''AAPL'' True)) \<and>
   fetch_log (run [(100, Settled (Failed ''HTTP 500: '')), (200, Refresh), (300, Refresh)]
      (new_card 0 ''AAPL'' True)) = [0, 200] \<and>
   step (400, Tick False) (run [(100, Settled (Failed ''HTTP 500: '')), (200, Refresh), (300, Refresh)]
      (new_card 0 ''AAPL'' True)) =
     run [(100, Settled (Failed ''HTTP 500: '')), (200, Refresh), (300, Refresh)]
      (new_card 0 ''AAPL'' True)"
proof -
  let ?c = "run [(100, Settled (Failed ''HTTP 500: '')), (200, Refresh), (300, Refresh)]
      (new_card 0 ''AAPL'' True)"
  have l: "isLoading ?c \<and> outstanding ?c = 1 \<and> fetch_log ?c = [0, 200]"
    by (simp add: new_card_def loadData_def loadData_settled_def)
  with one_fetch_in_flight
    [of "[(100, Settled (Failed ''HTTP 500: '')), (200, Refresh), (300, Refresh)]" 0 "''AAPL''" True
        400 False]
  show ?thesis by blast
qed

text \<open>
  C9, as the claim states it, fails: the card has no paused state. With the timer at
  5000 ms, three fetches in a row fail (the last at 10100) and the tick at 15000 issues
  the fourth fetch, long before 10100 plus \<open>AUTO_RESUME_DELAY\<close>.
\<close>

theorem no_pause_counterexample:
  "MAX_RETRIES (POLLING CONFIG) = 3 \<and> AUTO_PAUSE_ON_ERROR (POLLING CONFIG) \<and>
   15000 < 10100 + AUTO_RESUME_DELAY (POLLING CONFIG) \<and>
   fetch_log (run [(100, Settled (Failed ''HTTP 500: '')), (5000, Tick False),
                   (5100, Settled (Failed ''HTTP 500: '')), (10000, Tick False),
                   (10100, Settled (Failed ''HTTP 500: '')), (15000, Tick False)]
                (new_card 0 ''AAPL'' True)) = [0, 5000, 10000, 15000]"
  by (simp add: CONFIG_def new_card_def loadData_def loadData_settled_def)

text \<open>
  C9, amended. The card counts no failures and is never paused: whatever has happened
  since its construction with auto refresh on (any number of failed fetches included),
  a tick of the timer at which the document is visible and no load is pending issues a
  fetch at once, and a tick at which the document is hidden or a load is pending issues
  none.
\<close>

theorem tick_always_fetches:
  "(\<not> isLoading (run es (new_card t0 s True)) \<longrightarrow>
      fetch_log (step (now, Tick False) (run es (new_card t0 s True))) =
        fetch_log (run es (new_card t0 s True)) @ [now]) \<and>
   (hidden \<or> isLoading (run es (new_card t0 s True)) \<longrightarrow>
      step (now, Tick hidden) (run es (new_card t0 s True)) = run es (new_card t0 s True))"
proof -
  have "refreshTimer (run es (new_card t0 s True))"
    by (simp add: run_refreshTimer new_card_def)
  then show ?thesis by (auto simp: loadData_def)
qed

theorem tick_always_fetches_witness:
  "\<not> isLoading (run [(100, Settled (Failed ''HTTP 500: '')), (5000, Tick False),
                   (5100, Settled (Failed ''HTTP 500: '')), (10000, Tick False),
                   (10100, Settled (Failed ''HTTP 500: ''))]
                (new_card 0 ''AAPL'' True)) \<and>
   fetch_log (step (15000, Tick False)
               (run [(100, Settled (Failed ''HTTP 500: '')), (5000, Tick False),
                   (5100, Settled (Failed ''HTTP 500: '')), (10000, Tick False),
                   (10100, Settled (Failed ''HTTP 500: ''))]
                (new_card 0 ''AAPL'' True))) = [0, 5000, 10000, 15000] \<and>
   step (15000, Tick True)
               (run [(100, Settled (Failed ''HTTP 500: '')), (5000, Tick False),
                   (5100, Settled (Failed ''HTTP 500: '')), (10000, Tick False),
                   (10100, Settled (Failed ''HTTP 500: ''))]
                (new_card 0 ''AAPL'' True)) =
     run [(100, Settled (Failed ''HTTP 500: '')), (5000, Tick False),
                   (5100, Settled (Failed ''HTTP 500: '')), (10000, Tick False),
                   (10100, Settled (Failed ''HTTP 500: ''))]
                (new_card 0 ''AAPL'' True)"
proof -
  let ?es = "[(100, Settled (Failed ''HTTP 500: '')), (5000, Tick False),
                   (5100, Settled (Failed ''HTTP 500: '')), (10000, Tick False),
                   (10100, Settled (Failed ''HTTP 500: ''))]"
  let ?c = "run ?es (new_card 0 ''AAPL'' True)"
  have l: "\<not> isLoading ?c \<and> fetch_log ?c = [0, 5000, 10000]"
    by (simp add: new_card_def loadData_def loadData_settled_def)
  from tick_always_fetches [of ?es 0 "''AAPL''" 15000 False] l
  have a: "fetch_log (step (15000, Tick False) ?c) = [0, 5000, 10000, 15000]" by simp
  from tick_always_fetches [of ?es 0 "''AAPL''" 15000 True]
  have b: "step (15000, Tick True) ?c = ?c" by blast
  from l a b show ?thesis by blast
qed

subsection \<open>Portfolio totals\<close>

lemma foldl_add_card:
  "foldl add_card (totalValue, totalChange, validCards) stockCards =
     (totalValue + sum_list (map price_of (filter has_prices stockCards)),
      totalChange + sum_list (map change_of (filter has_prices stockCards)),
      validCards + length (filter has_prices stockCards))"
  by (induction stockCards arbitrary: totalValue totalChange validCards)
     (simp_all add: add_card_def price_of_def change_of_def Let_def)

text \<open>
  C5, as the claim states it, fails: the guard of the percentage is \<open>totalValue > 0\<close>,
  not a non-zero denominator. One card with price -1 and previous close 1 gives
  \<open>totalValue = -1\<close>, \<open>totalChange = -2\<close> and the denominator 1, where the claim's
  formula is -200; the code shows 0.
\<close>

theorem updateStats_guard_counterexample:
  "updateStats [Some (quote_with (- 1) 1)] = Some (- 1, - 2, Finite 0) \<and>
   (- 1) - (- 2) \<noteq> (0::real) \<and>
   (- 2) / ((- 1) - (- 2)) * 100 \<noteq> (0::real)"
  by (simp add: updateStats_def add_card_def has_prices_def quote_with_def)

text \<open>
  C5, amended. The totals sum only the cards that have data with a non-zero price and a
  non-zero previous close; a card with no data adds nothing. With at least one such
  card, the percentage is \<open>totalChange / (totalValue - totalChange) * 100\<close> whenever
  \<open>totalValue > 0\<close> and the denominator is non-zero, and 0 whenever \<open>totalValue \<le> 0\<close>
  (for \<open>totalValue > 0\<close> over a zero denominator the division yields \<open>Infinity\<close>); with no
  such card nothing is computed. For A (price 10, change +1), B (price 20, change -2)
  and C without data, \<open>totalChange = -1\<close>.
\<close>

theorem updateStats_totals:
  "updateStats stockCards =
     (let valid = filter has_prices stockCards;
          totalValue = sum_list (map price_of valid);
          totalChange = sum_list (map change_of valid)
      in if valid = [] then None
         else Some (totalValue, totalChange,
                if totalValue > 0
                then (if totalValue - totalChange \<noteq> 0
                      then Finite (totalChange / (totalValue - totalChange) * 100)
                      else Infinity)
                else Finite 0))"
  by (auto simp: updateStats_def foldl_add_card Let_def js_div_def)

theorem updateStats_totals_witness:
  "updateStats [Some (quote_with 10 9), Some (quote_with 20 22), None] =
     Some (30, - 1, Finite (- 100 / 31))"
  using updateStats_totals [of "[Some (quote_with 10 9), Some (quote_with 20 22), None]"]
  by (simp add: has_prices_def quote_with_def price_of_def change_of_def Let_def)

subsection \<open>Market status\<close>

lemma getMarketStatus_statusText:
  "statusText (getMarketStatus cfg browserOffset clock) =
     (let marketTime = \<lparr> local_day = clock_day clock, local_minutes = clock_minutes clock,
                          timezoneOffset = browserOffset \<rparr>
      in if toISOString_10 marketTime \<in> set (HOLIDAYS (MARKET cfg)) then ''Market Holiday''
         else if getDay marketTime \<notin> set (TRADING_DAYS (MARKET cfg)) then ''Market Closed - Weekend''
         else if in_market_hours cfg (toTimeString_5 marketTime) then ''Market Open''
         else if in_pre_market cfg (toTimeString_5 marketTime) \<or>
                 in_after_hours cfg (toTimeString_5 marketTime) then ''Extended Hours''
         else ''Market Closed'')"
  by (simp add: getMarketStatus_def Let_def in_market_hours_def in_pre_market_def
      in_after_hours_def)

lemma toISOString_10_utc_browser:
  "0 \<le> clock_minutes clock \<Longrightarrow> clock_minutes clock < 1440 \<Longrightarrow>
     toISOString_10 \<lparr> local_day = clock_day clock, local_minutes = clock_minutes clock,
                      timezoneOffset = 0 \<rparr> = iso_date (clock_day clock)"
proof -
  assume "0 \<le> clock_minutes clock" and "clock_minutes clock < 1440"
  then have "(clock_day clock * 1440 + clock_minutes clock) div 1440 = clock_day clock"
    by simp
  then show ?thesis by (simp add: toISOString_10_def iso_date_def)
qed

lemma getMarketStatus_holiday_utc_browser:
  "0 \<le> clock_minutes clock \<Longrightarrow> clock_minutes clock < 1440 \<Longrightarrow>
     iso_date (clock_day clock) \<in> set (HOLIDAYS (MARKET cfg)) \<Longrightarrow>
     statusText (getMarketStatus cfg 0 clock) = ''Market Holiday''"
  by (simp add: getMarketStatus_statusText toISOString_10_utc_browser)

text \<open>
  C7. The claim is what the classification should do; the code does something else
  for the date. \<open>dateString\<close> is read with \<open>toISOString()\<close>, in UTC, off a \<open>Date\<close> whose
  local fields hold the market's wall clock, so in a browser that is not on UTC the
  holiday list is tested against another date for part of each day. In a browser in
  New York (offset 300), on Thanksgiving, Thursday 2025-11-27, a date of the holiday
  list, at 19:30 market time, \<open>dateString\<close> is 2025-11-28: the status is extended
  hours, not the holiday status. In a browser on UTC the same instant gives the holiday
  status.
\<close>

theorem getMarketStatus_holiday_evening:
  "iso_date (days_from_civil 2025 11 27) \<in> set (HOLIDAYS (MARKET CONFIG)) \<and>
   toISOString_10 \<lparr> local_day = days_from_civil 2025 11 27, local_minutes = 19 * 60 + 30,
                    timezoneOffset = 300 \<rparr> = ''2025-11-28'' \<and>
   isHoliday (getMarketStatus CONFIG 300
      \<lparr> clock_day = days_from_civil 2025 11 27, clock_minutes = 19 * 60 + 30 \<rparr>) = False \<and>
   statusText (getMarketStatus CONFIG 300
      \<lparr> clock_day = days_from_civil 2025 11 27, clock_minutes = 19 * 60 + 30 \<rparr>) = ''Extended Hours'' \<and>
   statusText (getMarketStatus CONFIG 0
      \<lparr> clock_day = days_from_civil 2025 11 27, clock_minutes = 19 * 60 + 30 \<rparr>) = ''Market Holiday''"
  by code_simp

subsection \<open>Requests with retries\<close>

lemma event_loop_done:
  "tasks s = [] \<Longrightarrow> event_loop fuel source maxAttempts delay s = Some s"
  by (cases fuel) simp_all

lemma event_loop_step:
  "0 < fuel \<Longrightarrow>
     event_loop fuel source maxAttempts delay s =
       (case next_task (tasks s) of
          None \<Rightarrow> Some s
        | Some (t, ts) \<Rightarrow>
            event_loop (fuel - 1) source maxAttempts delay
              (run_task source maxAttempts delay t (s \<lparr> tasks := ts \<rparr>)))"
  by (cases fuel) (simp_all split: option.split)

lemma makeRequest_http_failures_steps:
  assumes "source (Suc 0) = (Response s1, l1)" and "\<not> (200 \<le> s1 \<and> s1 < 300)"
    and "source (Suc (Suc 0)) = (Response s2, l2)" and "\<not> (200 \<le> s2 \<and> s2 < 300)"
    and "source (Suc (Suc (Suc 0))) = (Response st, l3)" and "200 \<le> st" and "st < 300"
  shows "event_loop (Suc (Suc (Suc (Suc (Suc k))))) source 3 delay
           (run_task source 3 delay (0, AttemptRequest)
              \<lparr> attempts = 0, promise = None, delays = [], tasks = [] \<rparr>) =
         Some \<lparr> attempts = 3, promise = Some (Resolved st), delays = [delay * 1, delay * 2],
                tasks = [] \<rparr>"
  using assms by (simp add: retry_or_reject_def settle_def event_loop_done)

text \<open>
  Where the claim holds: when the first two requests end with a response whose status
  is outside 200 to 299 (one handler call each) and the third with a status inside,
  three requests are sent and the delays are 1 and 2 times the retry delay.
\<close>

lemma makeRequest_http_failures:
  assumes "RETRY_ATTEMPTS (API cfg) = 3" and "\<not> truthy (retries options)"
    and "source 1 = (Response s1, l1)" and "\<not> (200 \<le> s1 \<and> s1 < 300)"
    and "source 2 = (Response s2, l2)" and "\<not> (200 \<le> s2 \<and> s2 < 300)"
    and "source 3 = (Response st, l3)" and "200 \<le> st" and "st < 300"
    and "fuel \<ge> 5"
  shows "makeRequest fuel cfg source options =
           Some (Some (Resolved st), 3,
                 [1 * or_else (retryDelay options) (RETRY_DELAY (API cfg)),
                  2 * or_else (retryDelay options) (RETRY_DELAY (API cfg))])"
proof -
  have m: "or_else (retries options) (RETRY_ATTEMPTS (API cfg)) = 3"
    using assms(1,2) by (cases "retries options") simp_all
  have "fuel = Suc (Suc (Suc (Suc (Suc (fuel - 5)))))"
    using assms(10) by simp
  then obtain k where k: "fuel = Suc (Suc (Suc (Suc (Suc k))))" ..
  have 1: "source (Suc 0) = (Response s1, l1)" using assms(3) by simp
  have 2: "source (Suc (Suc 0)) = (Response s2, l2)" using assms(5) by (simp add: numeral_2_eq_2)
  have 3: "source (Suc (Suc (Suc 0))) = (Response st, l3)" using assms(7) by (simp add: numeral_3_eq_3)
  show ?thesis
    unfolding makeRequest_def Let_def m k
      makeRequest_http_failures_steps [OF 1 assms(4) 2 assms(6) 3 assms(8,9)]
    by simp
qed

text \<open>
  C4. The claim is what the retry logic should do; the code does something else when
  a failure is a network error or a timeout. The browser then calls
  \<open>onreadystatechange\<close> (status 0) and \<open>ontimeout\<close> or \<open>onerror\<close>, and each of the two
  handlers sets a retry. With \<open>RETRY_ATTEMPTS = 3\<close> and \<open>RETRY_DELAY = 2000\<close>: the first
  request ends with the status 503, the second times out, and the next requests get the
  status 200. Four requests are sent, not three, and the delays are 2000, 4000 and 4000.
  When both failures are network errors the promise is rejected although the third
  request succeeds.
\<close>

theorem makeRequest_timeout_retries_twice:
  "makeRequest 10 CONFIG
     (\<lambda>n. if n = 1 then (Response 503, 100) else if n = 2 then (TimedOut, 30000)
           else (Response 200, 100))
     \<lparr> retries = None, retryDelay = None \<rparr> =
     Some (Some (Resolved 200), 4, [2000, 4000, 4000]) \<and>
   makeRequest 10 CONFIG
     (\<lambda>n. if n = 1 then (NetworkFailure, 100) else if n = 2 then (NetworkFailure, 100)
           else (Response 200, 100))
     \<lparr> retries = None, retryDelay = None \<rparr> =
     Some (Some (Rejected (HttpError 0)), 3, [2000, 2000])"
  by (simp add: makeRequest_def CONFIG_def Let_def retry_or_reject_def settle_def
      event_loop_step event_loop_done)

end
